theory Spec2Isabelle
  imports Complex_Main "HOL-Library.Word" "HOL-Library.Multiset" "HOL-Library.Sublist"
begin

section \<open>Python values shared by both modules\<close>

text \<open>
  Exceptions are values: every \<^verbatim>\<open>raise\<close> of the source is an \<open>Inl\<close> branch of the
  model, carrying the exception class and its message.
\<close>

datatype error = ValueError string | TypeError string | RuntimeError string

text \<open>\<^verbatim>\<open>str(n)\<close> of a non-negative Python int, as the f-strings of the source print it.\<close>

fun str_nat :: "nat \<Rightarrow> string" where
  "str_nat n =
     (if n < 10 then [char_of (48 + n)]
      else str_nat (n div 10) @ [char_of (48 + n mod 10)])"

declare str_nat.simps [simp del]

text \<open>
  A 64-bit float that is not NaN is modelled as a \<open>real\<close> (arithmetic is exact, infinities
  are left out). A cell that may be missing (NaN, null) is a \<open>real option\<close>, \<open>None\<close>
  standing for NaN.
\<close>

type_synonym cell = "real option"

type_synonym byte = "8 word"

subsection \<open>numpy arrays as the repository reads them\<close>

datatype dtype = uint8 | float32 | float64 | object

fun str_dtype :: "dtype \<Rightarrow> string" where
  "str_dtype uint8 = ''uint8''"
| "str_dtype float32 = ''float32''"
| "str_dtype float64 = ''float64''"
| "str_dtype object = ''object''"

text \<open>
  The array handed to the store: its dtype is the constructor, its first axis is the list
  of rows. numpy only builds a numeric array from rows of one length; rows of different
  lengths give an array of dtype \<open>object\<close> holding the rows.
\<close>

datatype ndarray =
    UInt8Array "byte list list"
  | Float32Array "real list list"
  | Float64Array "real list list"
  | ObjectArray "real list list"

fun dtype_of :: "ndarray \<Rightarrow> dtype" where
  "dtype_of (UInt8Array rs) = uint8"
| "dtype_of (Float32Array rs) = float32"
| "dtype_of (Float64Array rs) = float64"
| "dtype_of (ObjectArray rs) = object"

fun shape0 :: "ndarray \<Rightarrow> nat" where
  "shape0 (UInt8Array rs) = length rs"
| "shape0 (Float32Array rs) = length rs"
| "shape0 (Float64Array rs) = length rs"
| "shape0 (ObjectArray rs) = length rs"

fun row_lengths :: "ndarray \<Rightarrow> nat list" where
  "row_lengths (UInt8Array rs) = map length rs"
| "row_lengths (Float32Array rs) = map length rs"
| "row_lengths (Float64Array rs) = map length rs"
| "row_lengths (ObjectArray rs) = map length rs"

fun identical_lengths :: "nat list \<Rightarrow> bool" where
  "identical_lengths [] = True"
| "identical_lengths (n # ns) = list_all (\<lambda>m. m = n) ns"

text \<open>What numpy guarantees of every array it builds: only an object array is ragged.\<close>

definition wf_ndarray :: "ndarray \<Rightarrow> bool" where
  "wf_ndarray a = (dtype_of a = object \<or> identical_lengths (row_lengths a))"

section \<open>The depth store (db/repository.py)\<close>


text \<open>
  The repository is the connection flag (\<^verbatim>\<open>self._conn is not None\<close>) and the two tables
  of the database file. A table is the list of its rows in rowid order.
\<close>

record ImageRepository =
  connected :: bool
  image_scans :: "(real \<times> byte list) list"
  metadata :: "(string \<times> string) list"

definition not_connected :: error where
  "not_connected = RuntimeError ''Repository not connected. Call connect() first.''"

text \<open>
  \<^verbatim>\<open>connect\<close> runs \<^verbatim>\<open>CREATE TABLE IF NOT EXISTS\<close>: the tables of an existing file are
  kept, a new file has two empty tables.
\<close>

definition new_repository :: ImageRepository where
  "new_repository = \<lparr>connected = False, image_scans = [], metadata = []\<rparr>"

definition connect :: "ImageRepository \<Rightarrow> ImageRepository" where
  "connect repo = repo\<lparr>connected := True\<rparr>"


text \<open>
  \<^verbatim>\<open>INSERT OR REPLACE\<close> on a table whose first column is the primary key: the row that
  holds the key, if any, is deleted, and the new row is added with a fresh rowid.
\<close>

fun insert_or_replace :: "('k \<times> 'v) list \<Rightarrow> 'k \<times> 'v \<Rightarrow> ('k \<times> 'v) list" where
  "insert_or_replace tbl (k, v) = filter (\<lambda>r. fst r \<noteq> k) tbl @ [(k, v)]"

definition executemany :: "('k \<times> 'v) list \<Rightarrow> ('k \<times> 'v) list \<Rightarrow> ('k \<times> 'v) list" where
  "executemany tbl rows = foldl insert_or_replace tbl rows"

definition shape_mismatch :: "nat \<Rightarrow> nat \<Rightarrow> error" where
  "shape_mismatch n m =
     ValueError (''Shape mismatch: '' @ str_nat n @ '' depths vs '' @ str_nat m @ '' pixel rows'')"

definition expected_uint8 :: "dtype \<Rightarrow> error" where
  "expected_uint8 d = TypeError (''Expected uint8 pixel data, got '' @ str_dtype d)"

text \<open>
  \<^verbatim>\<open>bulk_insert_scans\<close> returns what the call returns or raises, and the repository as
  the call leaves it.
\<close>

definition bulk_insert_scans ::
  "ImageRepository \<Rightarrow> real list \<Rightarrow> ndarray \<Rightarrow> (error + nat) \<times> ImageRepository" where
  "bulk_insert_scans repo depths pixel_array =
     (if length depths \<noteq> shape0 pixel_array
      then (Inl (shape_mismatch (length depths) (shape0 pixel_array)), repo)
      else case pixel_array of
        UInt8Array prs \<Rightarrow>
          (let rows = zip depths prs in
           if \<not> connected repo then (Inl not_connected, repo)
           else (Inr (length rows),
                 repo\<lparr>image_scans := executemany (image_scans repo) rows\<rparr>))
      | _ \<Rightarrow> (Inl (expected_uint8 (dtype_of pixel_array)), repo))"





definition get_metadata :: "ImageRepository \<Rightarrow> string \<Rightarrow> error + string option" where
  "get_metadata repo key =
     (if \<not> connected repo then Inl not_connected
      else Inr (map_of (metadata repo) key))"

definition get_all_metadata :: "ImageRepository \<Rightarrow> error + (string \<times> string) list" where
  "get_all_metadata repo =
     (if \<not> connected repo then Inl not_connected else Inr (metadata repo))"





definition get_row_count :: "ImageRepository \<Rightarrow> error + nat" where
  "get_row_count repo =
     (if \<not> connected repo then Inl not_connected else Inr (length (image_scans repo)))"

definition is_populated :: "ImageRepository \<Rightarrow> error + bool" where
  "is_populated repo =
     (case get_row_count repo of Inl e \<Rightarrow> Inl e | Inr n \<Rightarrow> Inr (n > 0))"

section \<open>The ingestion pipeline (ingestion/pipeline.py)\<close>

record ValidationReport =
  raw_rows :: nat
  clean_rows :: nat
  null_rows_dropped :: nat
  duplicate_depths_dropped :: nat
  depth_min :: real
  depth_max :: real
  depth_step :: cell
  is_monotonic :: bool
  pixel_min :: cell
  pixel_max :: cell
  original_width :: nat

text \<open>
  The input table: one row per CSV line, the \<^verbatim>\<open>depth\<close> column first, then the pixel
  columns (the same number in every row).
\<close>

type_synonym dataframe = "(cell \<times> cell list) list"

subsection \<open>pandas and numpy operations used by the validation\<close>

text \<open>\<^verbatim>\<open>df.isnull().all(axis=1)\<close>: every column of the row is null.\<close>

definition isnull_all :: "cell \<times> cell list \<Rightarrow> bool" where
  "isnull_all r = (fst r = None \<and> list_all (\<lambda>c. c = None) (snd r))"

text \<open>\<^verbatim>\<open>df[~df["depth"].isnull()]\<close>: the rows that have a depth.\<close>

fun drop_null_depth :: "dataframe \<Rightarrow> (real \<times> cell list) list" where
  "drop_null_depth [] = []"
| "drop_null_depth ((None, ps) # rs) = drop_null_depth rs"
| "drop_null_depth ((Some d, ps) # rs) = (d, ps) # drop_null_depth rs"

text \<open>
  \<^verbatim>\<open>df.sort_values("depth")\<close>: rows of equal depth keep their input order, as numpy's
  sort does on the short arrays it sorts by insertion.
\<close>

definition sort_values :: "(real \<times> cell list) list \<Rightarrow> (real \<times> cell list) list" where
  "sort_values df = sort_key fst df"

text \<open>\<^verbatim>\<open>Series.duplicated(keep="first")\<close>: true where the value occurred before.\<close>

fun duplicated :: "'a list \<Rightarrow> 'a list \<Rightarrow> bool list" where
  "duplicated seen [] = []"
| "duplicated seen (x # xs) = List.member seen x # duplicated (x # seen) xs"

text \<open>\<^verbatim>\<open>df[~mask]\<close>: the rows whose mask entry is false.\<close>

fun drop_masked :: "bool list \<Rightarrow> 'a list \<Rightarrow> 'a list" where
  "drop_masked (m # ms) (r # rs) = (if m then drop_masked ms rs else r # drop_masked ms rs)"
| "drop_masked _ _ = []"

definition mask_sum :: "bool list \<Rightarrow> nat" where
  "mask_sum ms = length (filter (\<lambda>m. m) ms)"

definition has_nan :: "cell list \<Rightarrow> bool" where
  "has_nan row = list_ex (\<lambda>c. c = None) row"

text \<open>
  \<^verbatim>\<open>np.nanmean(row)\<close>: the mean of the values that are not NaN; NaN (with a warning,
  no exception) when there is none.
\<close>

definition nanmean :: "cell list \<Rightarrow> cell" where
  "nanmean row =
     (let vs = List.map_filter (\<lambda>c. c) row
      in if vs = [] then None else Some (sum_list vs / real (length vs)))"

text \<open>\<^verbatim>\<open>np.where(np.isnan(row), row_mean, row)\<close>\<close>

definition fill_nan :: "cell \<Rightarrow> cell list \<Rightarrow> cell list" where
  "fill_nan row_mean row = map (\<lambda>c. case c of None \<Rightarrow> row_mean | Some v \<Rightarrow> Some v) row"

definition fill_rows :: "cell list list \<Rightarrow> cell list list" where
  "fill_rows pixels = map (\<lambda>row. if has_nan row then fill_nan (nanmean row) row else row) pixels"

text \<open>
  \<^verbatim>\<open>ndarray.min()\<close> and \<^verbatim>\<open>ndarray.max()\<close>: NaN as soon as one element is NaN, and a
  \<^verbatim>\<open>ValueError\<close> on an array without elements.
\<close>

fun nan_min :: "cell \<Rightarrow> cell \<Rightarrow> cell" where
  "nan_min (Some u) (Some v) = Some (min u v)"
| "nan_min _ _ = None"

fun nan_max :: "cell \<Rightarrow> cell \<Rightarrow> cell" where
  "nan_max (Some u) (Some v) = Some (max u v)"
| "nan_max _ _ = None"

definition zero_size :: "string \<Rightarrow> error" where
  "zero_size name =
     ValueError (''zero-size array to reduction operation '' @ name @ '' which has no identity'')"

fun array_min :: "cell list \<Rightarrow> error + cell" where
  "array_min [] = Inl (zero_size ''minimum'')"
| "array_min (x # xs) = Inr (fold nan_min xs x)"

fun array_max :: "cell list \<Rightarrow> error + cell" where
  "array_max [] = Inl (zero_size ''maximum'')"
| "array_max (x # xs) = Inr (fold nan_max xs x)"

fun depths_min :: "real list \<Rightarrow> error + real" where
  "depths_min [] = Inl (zero_size ''minimum'')"
| "depths_min (x # xs) = Inr (fold min xs x)"

fun depths_max :: "real list \<Rightarrow> error + real" where
  "depths_max [] = Inl (zero_size ''maximum'')"
| "depths_max (x # xs) = Inr (fold max xs x)"

text \<open>A comparison with NaN is false.\<close>

fun cell_less :: "cell \<Rightarrow> real \<Rightarrow> bool" where
  "cell_less None v = False"
| "cell_less (Some u) v = (u < v)"

fun cell_greater :: "cell \<Rightarrow> real \<Rightarrow> bool" where
  "cell_greater None v = False"
| "cell_greater (Some u) v = (u > v)"

text \<open>\<^verbatim>\<open>np.clip(pixels, 0, 255)\<close>\<close>

definition clip :: "real \<Rightarrow> real \<Rightarrow> real \<Rightarrow> real" where
  "clip lo hi v = min (max v lo) hi"

definition clip_pixels :: "cell list list \<Rightarrow> cell list list" where
  "clip_pixels pixels = map (map (map_option (clip 0 255))) pixels"

text \<open>\<^verbatim>\<open>np.diff\<close> and \<^verbatim>\<open>np.median\<close> (NaN on an empty array).\<close>

fun diff :: "real list \<Rightarrow> real list" where
  "diff (x # y # r) = (y - x) # diff (y # r)"
| "diff _ = []"

definition median :: "real list \<Rightarrow> cell" where
  "median xs =
     (let s = sort xs; n = length s
      in if n = 0 then None
         else if odd n then Some (s ! (n div 2))
         else Some ((s ! (n div 2 - 1) + s ! (n div 2)) / 2))"

text \<open>\<^verbatim>\<open>pixels.shape[1]\<close>: the number of pixel columns.\<close>

fun shape1 :: "'a list list \<Rightarrow> nat" where
  "shape1 [] = 0"
| "shape1 (row # rows) = length row"

subsection \<open>validate\_and\_clean\<close>

definition validate_and_clean ::
  "dataframe \<Rightarrow> error + real list \<times> cell list list \<times> ValidationReport" where
  "validate_and_clean df0 =
     (let raw = length df0;
          null_mask = map isnull_all df0;
          null_count = mask_sum null_mask;
          df1 = (if null_count > 0 then drop_masked null_mask df0 else df0);
          df2 = drop_null_depth df1;
          df3 = sort_values df2;
          dup_mask = duplicated [] (map fst df3);
          dup_count = mask_sum dup_mask;
          df4 = (if dup_count > 0 then drop_masked dup_mask df3 else df3);
          depths = map fst df4;
          pixels = fill_rows (map snd df4)
      in case array_min (concat pixels) of
           Inl e \<Rightarrow> Inl e
         | Inr px_min \<Rightarrow>
         (case array_max (concat pixels) of
           Inl e \<Rightarrow> Inl e
         | Inr px_max \<Rightarrow>
         (let clipped = (if cell_less px_min 0 \<or> cell_greater px_max 255
                         then clip_pixels pixels else pixels);
              depth_diffs = diff depths
          in case depths_min depths of
               Inl e \<Rightarrow> Inl e
             | Inr dmin \<Rightarrow>
             (case depths_max depths of
               Inl e \<Rightarrow> Inl e
             | Inr dmax \<Rightarrow>
                 Inr (depths, clipped,
                   \<lparr>raw_rows = raw,
                    clean_rows = length depths,
                    null_rows_dropped = null_count,
                    duplicate_depths_dropped = dup_count,
                    depth_min = dmin,
                    depth_max = dmax,
                    depth_step = median depth_diffs,
                    is_monotonic = list_all (\<lambda>d. d > 0) depth_diffs,
                    pixel_min = px_min,
                    pixel_max = px_max,
                    original_width = shape1 clipped\<rparr>)))))"

subsection \<open>resize\_image\<close>

datatype interpolation = INTER_NEAREST | INTER_LINEAR | INTER_CUBIC | INTER_AREA | INTER_LANCZOS4

definition INTERPOLATION_METHODS :: "(string \<times> interpolation) list" where
  "INTERPOLATION_METHODS =
     [(''NEAREST'', INTER_NEAREST),
      (''BILINEAR'', INTER_LINEAR),
      (''BICUBIC'', INTER_CUBIC),
      (''AREA'', INTER_AREA),
      (''LANCZOS4'', INTER_LANCZOS4)]"

fun join :: "string \<Rightarrow> string list \<Rightarrow> string" where
  "join sep [] = []"
| "join sep [s] = s"
| "join sep (s # t # ts) = s @ sep @ join sep (t # ts)"

text \<open>
  \<^verbatim>\<open>str\<close> of a list of strings prints each element with \<^verbatim>\<open>repr\<close>. Python's \<^verbatim>\<open>repr\<close>
  is a builtin, not part of the repository: it is a parameter.
\<close>

definition str_list :: "(string \<Rightarrow> string) \<Rightarrow> string list \<Rightarrow> string" where
  "str_list repr xs = ''['' @ join '', '' (map repr xs) @ '']''"

definition unknown_method :: "(string \<Rightarrow> string) \<Rightarrow> string \<Rightarrow> error" where
  "unknown_method repr method =
     ValueError (''Unknown interpolation method: '' @ repr method @ ''. Available: ''
                 @ str_list repr (map fst INTERPOLATION_METHODS))"

text \<open>
  \<^verbatim>\<open>np.clip(resized, 0, 255).astype(np.uint8)\<close>: the cast drops the fraction.
\<close>

definition quantize :: "real \<Rightarrow> byte" where
  "quantize v = word_of_int \<lfloor>clip 0 255 v\<rfloor>"

text \<open>
  \<^verbatim>\<open>cv2.resize\<close> is OpenCV's, not the repository's: the resampler is the parameter
  \<open>cv2_resize\<close>, called with the image, the size \<open>(width, height)\<close> and the flag. The
  matrix holds no NaN, and the conversion to float32 before the call is the identity on
  the reals that stand for the floats.
\<close>

definition resize_image ::
  "(string \<Rightarrow> string) \<Rightarrow>
   (real list list \<Rightarrow> nat \<times> nat \<Rightarrow> interpolation \<Rightarrow> error + real list list) \<Rightarrow>
   real list list \<Rightarrow> nat \<Rightarrow> string \<Rightarrow> error + ndarray" where
  "resize_image repr cv2_resize pixels target_width method =
     (case map_of INTERPOLATION_METHODS method of
        None \<Rightarrow> Inl (unknown_method repr method)
      | Some interp_flag \<Rightarrow>
          (case cv2_resize pixels (target_width, length pixels) interp_flag of
             Inl e \<Rightarrow> Inl e
           | Inr resized \<Rightarrow> Inr (UInt8Array (map (map quantize) resized))))"

section \<open>Notions used by the properties\<close>


text \<open>The store of the repository tests: five rows at depths 100.0 to 102.0.\<close>

definition populated_repository :: ImageRepository where
  "populated_repository =
     \<lparr>connected = True,
      image_scans = [(100, [1, 2]), (101, [5, 6]), (100.5, [3, 4]), (102, [9, 10]), (101.5, [7, 8])],
      metadata = []\<rparr>"

text \<open>
  What \<^verbatim>\<open>repr\<close> prints for a string of letters and digits: the string between single
  quotes.
\<close>

definition quote_repr :: "string \<Rightarrow> string" where
  "quote_repr s = [CHR 0x27] @ s @ [CHR 0x27]"

section \<open>INSERT OR REPLACE over a whole batch\<close>

lemma insert_or_replace_keys:
  "fst ` set (insert_or_replace tbl r) = insert (fst r) (fst ` set tbl)"
  by (cases r) (auto simp: image_iff)

lemma insert_or_replace_distinct:
  "distinct (map fst tbl) \<Longrightarrow> distinct (map fst (insert_or_replace tbl r))"
  by (cases r) (auto simp: distinct_map_filter)

lemma executemany_snoc:
  "executemany tbl (rows @ [r]) = insert_or_replace (executemany tbl rows) r"
  by (simp add: executemany_def)

lemma executemany_keys:
  "fst ` set (executemany tbl rows) = fst ` set tbl \<union> fst ` set rows"
proof (induction rows rule: rev_induct)
  case Nil
  show ?case by (simp add: executemany_def)
next
  case (snoc r rows)
  show ?case
    unfolding executemany_snoc insert_or_replace_keys snoc.IH by auto
qed

lemma executemany_distinct:
  "distinct (map fst tbl) \<Longrightarrow> distinct (map fst (executemany tbl rows))"
proof (induction rows rule: rev_induct)
  case Nil
  then show ?case by (simp add: executemany_def)
next
  case (snoc r rows)
  then show ?case
    by (simp only: executemany_snoc insert_or_replace_distinct)
qed

lemma executemany_split:
  "executemany tbl rows =
     filter (\<lambda>r. fst r \<notin> fst ` set rows) tbl @ executemany [] rows"
proof (induction rows rule: rev_induct)
  case Nil
  show ?case by (simp add: executemany_def)
next
  case (snoc r rows)
  obtain k v where r: "r = (k, v)" by (cases r)
  have "executemany tbl (rows @ [r]) =
          filter (\<lambda>q. fst q \<noteq> k) (filter (\<lambda>q. fst q \<notin> fst ` set rows) tbl @ executemany [] rows)
          @ [(k, v)]"
    unfolding executemany_snoc r using snoc.IH r by simp
  also have "\<dots> = filter (\<lambda>q. fst q \<notin> fst ` set (rows @ [r])) tbl
                   @ insert_or_replace (executemany [] rows) r"
    by (simp add: r conj_commute)
  finally show ?case by (simp only: executemany_snoc)
qed


lemma executemany_fresh_length:
  "length (executemany [] rows) = card (fst ` set rows)"
proof -
  have "distinct (map fst (executemany [] rows))"
    by (rule executemany_distinct) simp
  then have "length (map fst (executemany [] rows)) = card (set (map fst (executemany [] rows)))"
    by (simp only: distinct_card)
  then show ?thesis
    by (simp add: executemany_keys)
qed

lemma executemany_length:
  "length (executemany tbl rows) =
     length (filter (\<lambda>r. fst r \<notin> fst ` set rows) tbl) + card (fst ` set rows)"
  by (subst executemany_split) (simp add: executemany_fresh_length)



lemma zip_keys: "length depths = length prs \<Longrightarrow> fst ` set (zip depths prs) = set depths"
  by (metis map_fst_zip set_map)

lemma bulk_insert_scans_ok:
  assumes "connected repo" and "length depths = length prs"
  shows "bulk_insert_scans repo depths (UInt8Array prs) =
           (Inr (length depths),
            repo\<lparr>image_scans := executemany (image_scans repo) (zip depths prs)\<rparr>)"
  using assms by (simp add: bulk_insert_scans_def)



lemma bulk_insert_scans_fail_state:
  "fst (bulk_insert_scans repo depths pixel_array) = Inl e \<Longrightarrow>
   snd (bulk_insert_scans repo depths pixel_array) = repo"
  by (cases pixel_array) (auto simp: bulk_insert_scans_def Let_def split: if_splits)






section \<open>Error messages of the pipeline\<close>

lemma sublist_join: "x \<in> set xs \<Longrightarrow> sublist x (join sep xs)"
  by (induction sep xs rule: join.induct) (auto simp: sublist_append)

lemma sublist_str_list: "x \<in> set xs \<Longrightarrow> sublist (repr x) (str_list repr xs)"
proof -
  assume "x \<in> set xs"
  then have "repr x \<in> set (map repr xs)" by simp
  then have "sublist (repr x) (join '', '' (map repr xs))" by (rule sublist_join)
  then show ?thesis
    unfolding str_list_def by (simp only: sublist_append simp_thms)
qed

lemma map_of_unknown: "method \<notin> set (map fst tbl) \<Longrightarrow> map_of tbl method = None"
  by (simp add: map_of_eq_None_iff)

lemma resize_image_unknown:
  assumes "method \<notin> set (map fst INTERPOLATION_METHODS)"
  shows "resize_image repr cv2_resize pixels target_width method = Inl (unknown_method repr method)"
  using map_of_unknown [OF assms] by (simp add: resize_image_def)

section \<open>Properties of the depth store\<close>







text \<open>
  Claim C6. When the number of depths differs from the number of pixel rows, or the pixel
  rows are not all of one length, or the array is not of dtype uint8,
  \<^verbatim>\<open>bulk_insert_scans\<close> raises a \<^verbatim>\<open>ValueError\<close> (shape) or a \<^verbatim>\<open>TypeError\<close> (dtype)
  and leaves the repository exactly as it was.
\<close>

theorem bulk_insert_scans_validates_first:
  assumes "wf_ndarray pixel_array"
    and "length depths \<noteq> shape0 pixel_array
         \<or> \<not> identical_lengths (row_lengths pixel_array)
         \<or> dtype_of pixel_array \<noteq> uint8"
  shows "\<exists>e msg. bulk_insert_scans repo depths pixel_array = (Inl e, repo)
           \<and> (e = ValueError msg \<or> e = TypeError msg)
           \<and> e = (if length depths \<noteq> shape0 pixel_array
                   then shape_mismatch (length depths) (shape0 pixel_array)
                   else expected_uint8 (dtype_of pixel_array))"
proof (cases "length depths \<noteq> shape0 pixel_array")
  case True
  then show ?thesis
    by (simp add: bulk_insert_scans_def shape_mismatch_def)
next
  case False
  with assms have "dtype_of pixel_array \<noteq> uint8"
    by (auto simp: wf_ndarray_def)
  with False show ?thesis
    by (cases pixel_array) (simp_all add: bulk_insert_scans_def expected_uint8_def)
qed

theorem bulk_insert_scans_validates_first_witness:
  "wf_ndarray (ObjectArray [[1, 2], [3]])
   \<and> \<not> identical_lengths (row_lengths (ObjectArray [[1, 2], [3]]))
   \<and> bulk_insert_scans populated_repository [100, 101] (ObjectArray [[1, 2], [3]])
       = (Inl (TypeError ''Expected uint8 pixel data, got object''), populated_repository)
   \<and> bulk_insert_scans populated_repository [100, 101] (UInt8Array [[1, 2]])
       = (Inl (ValueError ''Shape mismatch: 2 depths vs 1 pixel rows''), populated_repository)"
proof -
  have w1: "wf_ndarray (ObjectArray [[1, 2], [3]])"
    and w2: "wf_ndarray (UInt8Array [[1, 2]])"
    by (simp_all add: wf_ndarray_def)
  have r: "\<not> identical_lengths (row_lengths (ObjectArray [[1, 2], [3]]))"
    by simp
  have s: "length [100, 101 :: real] \<noteq> shape0 (UInt8Array [[1, 2]])"
    by simp
  have n: "str_nat (Suc (Suc 0)) = ''2''" "str_nat (Suc 0) = ''1''"
    by code_simp+
  from bulk_insert_scans_validates_first [OF w1, of "[100, 101]" populated_repository] r
  have a: "bulk_insert_scans populated_repository [100, 101] (ObjectArray [[1, 2], [3]])
       = (Inl (TypeError ''Expected uint8 pixel data, got object''), populated_repository)"
    by (auto simp: expected_uint8_def)
  from bulk_insert_scans_validates_first [OF w2, of "[100, 101]" populated_repository] s
  have b: "bulk_insert_scans populated_repository [100, 101] (UInt8Array [[1, 2]])
       = (Inl (ValueError ''Shape mismatch: 2 depths vs 1 pixel rows''), populated_repository)"
    by (auto simp: shape_mismatch_def n)
  from w1 r a b show ?thesis by blast
qed



text \<open>
  Claim C10. A successful \<^verbatim>\<open>bulk_insert_scans\<close> returns the length of \<open>depths\<close>. The
  store grows by at most the number of distinct depths written, so when \<open>depths\<close> repeats
  a value the count returned is larger than the number of rows added.
\<close>

theorem bulk_insert_scans_count:
  assumes "connected repo" and "length depths = length prs"
  shows "\<exists>repo'. bulk_insert_scans repo depths (UInt8Array prs) = (Inr (length depths), repo')
           \<and> length (image_scans repo') \<le> length (image_scans repo) + card (set depths)
           \<and> (\<not> distinct depths \<longrightarrow>
                length (image_scans repo') < length (image_scans repo) + length depths)"
proof -
  let ?repo' = "repo\<lparr>image_scans := executemany (image_scans repo) (zip depths prs)\<rparr>"
  have ok: "bulk_insert_scans repo depths (UInt8Array prs) = (Inr (length depths), ?repo')"
    using assms by (rule bulk_insert_scans_ok)
  have keys: "fst ` set (zip depths prs) = set depths"
    using assms(2) by (rule zip_keys)
  have "length (image_scans ?repo') =
          length (filter (\<lambda>r. fst r \<notin> set depths) (image_scans repo)) + card (set depths)"
    by (simp add: executemany_length keys)
  moreover have "length (filter (\<lambda>r. fst r \<notin> set depths) (image_scans repo)) \<le> length (image_scans repo)"
    by (rule length_filter_le)
  ultimately have le: "length (image_scans ?repo') \<le> length (image_scans repo) + card (set depths)"
    by simp
  have lt: "length (image_scans ?repo') < length (image_scans repo) + length depths"
    if "\<not> distinct depths"
  proof -
    have "card (set depths) \<le> length depths"
      by (rule card_length)
    moreover from that have "card (set depths) \<noteq> length depths"
      using card_distinct by blast
    ultimately have "card (set depths) < length depths"
      by simp
    with le show ?thesis by simp
  qed
  from ok le lt show ?thesis by blast
qed

theorem bulk_insert_scans_count_witness:
  "connected (connect new_repository) \<and> length [1, 2, 1 :: real] = length [[1], [2], [3 :: byte]]
   \<and> \<not> distinct [1, 2, 1 :: real]
   \<and> (\<exists>repo'. bulk_insert_scans (connect new_repository) [1, 2, 1] (UInt8Array [[1], [2], [3]])
                  = (Inr 3, repo')
          \<and> length (image_scans repo') = 2)"
proof -
  have c: "connected (connect new_repository)"
    by (simp add: connect_def)
  have l: "length [1, 2, 1 :: real] = length [[1], [2], [3 :: byte]]"
    by simp
  have d: "\<not> distinct [1, 2, 1 :: real]"
    by simp
  have w: "bulk_insert_scans (connect new_repository) [1, 2, 1] (UInt8Array [[1], [2], [3]]) =
             (Inr 3, connect new_repository\<lparr>image_scans := [(2, [2]), (1, [3])]\<rparr>)"
    by (simp add: bulk_insert_scans_def connect_def new_repository_def executemany_def)
  from bulk_insert_scans_count [OF c l] w
  have "\<exists>repo'. bulk_insert_scans (connect new_repository) [1, 2, 1] (UInt8Array [[1], [2], [3]])
                  = (Inr 3, repo')
          \<and> length (image_scans repo') = 2"
    by simp
  with c l d show ?thesis by blast
qed

section \<open>Properties of the ingestion pipeline\<close>

text \<open>
  Claim C8. For a method name that is not a key of \<^verbatim>\<open>INTERPOLATION_METHODS\<close>,
  \<^verbatim>\<open>resize_image\<close> raises a \<^verbatim>\<open>ValueError\<close> whose message lists the five valid names
  as \<^verbatim>\<open>repr\<close> prints them (so the names themselves, when \<^verbatim>\<open>repr\<close> keeps the text of
  a name), and the resampler is not consulted: the outcome is the same whatever
  \<^verbatim>\<open>cv2.resize\<close> would do.
\<close>

theorem resize_image_unknown_method:
  assumes "method \<notin> set (map fst INTERPOLATION_METHODS)"
  shows "\<exists>msg. resize_image repr cv2_resize pixels target_width method = Inl (ValueError msg)
           \<and> msg = ''Unknown interpolation method: '' @ repr method @ ''. Available: [''
                   @ repr ''NEAREST'' @ '', '' @ repr ''BILINEAR'' @ '', '' @ repr ''BICUBIC''
                   @ '', '' @ repr ''AREA'' @ '', '' @ repr ''LANCZOS4'' @ '']''
           \<and> (\<forall>name \<in> set (map fst INTERPOLATION_METHODS). sublist (repr name) msg)
           \<and> ((\<forall>name \<in> set (map fst INTERPOLATION_METHODS). sublist name (repr name)) \<longrightarrow>
                (\<forall>name \<in> set (map fst INTERPOLATION_METHODS). sublist name msg))
           \<and> (\<forall>other. resize_image repr other pixels target_width method = Inl (ValueError msg))"
proof -
  let ?avail = "str_list repr (map fst INTERPOLATION_METHODS)"
  let ?msg = "''Unknown interpolation method: '' @ repr method @ ''. Available: '' @ ?avail"
  have res: "resize_image repr r pixels target_width method = Inl (ValueError ?msg)" for r
    using resize_image_unknown [OF assms] by (simp add: unknown_method_def)
  have shape: "?msg = ''Unknown interpolation method: '' @ repr method @ ''. Available: [''
                   @ repr ''NEAREST'' @ '', '' @ repr ''BILINEAR'' @ '', '' @ repr ''BICUBIC''
                   @ '', '' @ repr ''AREA'' @ '', '' @ repr ''LANCZOS4'' @ '']''"
    by (simp add: str_list_def INTERPOLATION_METHODS_def)
  have named: "sublist (repr name) ?msg" if "name \<in> set (map fst INTERPOLATION_METHODS)" for name
  proof -
    from that have "sublist (repr name) ?avail" by (rule sublist_str_list)
    then show ?thesis by (simp only: sublist_append simp_thms)
  qed
  have plain: "sublist name ?msg"
    if "\<forall>k \<in> set (map fst INTERPOLATION_METHODS). sublist k (repr k)"
      and "name \<in> set (map fst INTERPOLATION_METHODS)" for name
  proof -
    from that have "sublist name (repr name)" by blast
    moreover from that(2) have "sublist (repr name) ?msg" by (rule named)
    ultimately show ?thesis by (rule sublist_order.order_trans)
  qed
  show ?thesis
  proof (intro exI conjI)
    show "resize_image repr cv2_resize pixels target_width method = Inl (ValueError ?msg)"
      by (rule res)
    show "?msg = ''Unknown interpolation method: '' @ repr method @ ''. Available: [''
                   @ repr ''NEAREST'' @ '', '' @ repr ''BILINEAR'' @ '', '' @ repr ''BICUBIC''
                   @ '', '' @ repr ''AREA'' @ '', '' @ repr ''LANCZOS4'' @ '']''"
      by (rule shape)
    show "\<forall>name \<in> set (map fst INTERPOLATION_METHODS). sublist (repr name) ?msg"
      using named by blast
    show "(\<forall>name \<in> set (map fst INTERPOLATION_METHODS). sublist name (repr name)) \<longrightarrow>
                (\<forall>name \<in> set (map fst INTERPOLATION_METHODS). sublist name ?msg)"
      using plain by blast
    show "\<forall>other. resize_image repr other pixels target_width method = Inl (ValueError ?msg)"
      using res by blast
  qed
qed

theorem resize_image_unknown_method_witness:
  "''INVALID'' \<notin> set (map fst INTERPOLATION_METHODS)
   \<and> resize_image quote_repr (\<lambda>img size flag. Inr img) [[1, 2]] 150 ''INVALID''
       = Inl (ValueError (''Unknown interpolation method: '' @ [CHR 0x27] @ ''INVALID'' @ [CHR 0x27]
               @ ''. Available: ['' @ [CHR 0x27] @ ''NEAREST'' @ [CHR 0x27] @ '', ''
               @ [CHR 0x27] @ ''BILINEAR'' @ [CHR 0x27] @ '', ''
               @ [CHR 0x27] @ ''BICUBIC'' @ [CHR 0x27] @ '', ''
               @ [CHR 0x27] @ ''AREA'' @ [CHR 0x27] @ '', ''
               @ [CHR 0x27] @ ''LANCZOS4'' @ [CHR 0x27] @ '']''))"
proof -
  have n: "''INVALID'' \<notin> set (map fst INTERPOLATION_METHODS)"
    by (simp add: INTERPOLATION_METHODS_def)
  from resize_image_unknown_method [OF n, of quote_repr "\<lambda>img size flag. Inr img" "[[1, 2]]" 150]
  have "resize_image quote_repr (\<lambda>img size flag. Inr img) [[1, 2]] 150 ''INVALID''
       = Inl (ValueError (''Unknown interpolation method: '' @ [CHR 0x27] @ ''INVALID'' @ [CHR 0x27]
               @ ''. Available: ['' @ [CHR 0x27] @ ''NEAREST'' @ [CHR 0x27] @ '', ''
               @ [CHR 0x27] @ ''BILINEAR'' @ [CHR 0x27] @ '', ''
               @ [CHR 0x27] @ ''BICUBIC'' @ [CHR 0x27] @ '', ''
               @ [CHR 0x27] @ ''AREA'' @ [CHR 0x27] @ '', ''
               @ [CHR 0x27] @ ''LANCZOS4'' @ [CHR 0x27] @ '']''))"
    by (auto simp: quote_repr_def)
  with n show ?thesis by blast
qed


text \<open>
  Claim C1. The claim is that the returned pixel matrix never holds NaN. On the table
  \<open>[(1.0, [10, 20]), (2.0, [NaN, NaN])]\<close> the function returns, and the second row of the
  returned matrix is still \<open>[NaN, NaN]\<close>: the mean of a row without values is NaN, and it
  is written back into the row.
\<close>

theorem validate_and_clean_all_nan_row:
  "validate_and_clean [(Some 1, [Some 10, Some 20]), (Some 2, [None, None])]
   = Inr ([1, 2], [[Some 10, Some 20], [None, None]],
       \<lparr>raw_rows = 2, clean_rows = 2, null_rows_dropped = 0,
        duplicate_depths_dropped = 0, depth_min = 1, depth_max = 2,
        depth_step = Some 1, is_monotonic = True, pixel_min = None,
        pixel_max = None, original_width = 2\<rparr>)"
  by code_simp

end
